theory Spec2Isabelle
  imports Complex_Main "HOL-Library.Sublist"
begin

section \<open>Study material generator: the prompt pipeline of \<open>main.py\<close>\<close>

text \<open>
  The service is one Python module: a start-up part that reads the credential and builds
  the shared LLM handle, two constant routes, and two POST routes that build CrewAI agents,
  tasks and crews and run them (\<open>crew.kickoff()\<close>).

  Conventions of the embedding.
  \<^item> A Python \<open>str\<close> is a \<open>string\<close> holding its UTF-8 bytes; the three non-ASCII characters
    of the source are written as their byte sequences. UTF-8 is self-synchronising, so
    Python's \<open>s in t\<close> on the code points is \<open>sublist s t\<close> on the bytes, and a string is
    empty in one reading iff it is empty in the other.
  \<^item> \<open>Agent\<close>, \<open>Task\<close>, \<open>Crew\<close> and \<open>LLM\<close> are plain records of the keyword arguments the
    source passes.
  \<^item> \<open>crew.kickoff()\<close> is the external generation capability. It is a parameter
    \<open>kickoff\<close> of every handler: given the crew and the state of the outside world it
    either raises (\<open>Inl\<close>) or returns a result (\<open>Inr\<close>), and leaves a new world. Nothing
    is assumed about it. \<open>str(result)\<close> is the parameter \<open>str_of\<close>.
  \<^item> A raised exception is the \<open>Inl\<close> branch of the handler's result.
\<close>

subsection \<open>Python's decimal rendering of an \<open>int\<close> inside an f-string\<close>

fun str_nat :: "nat \<Rightarrow> string" where
  "str_nat n =
     (if n < 10 then [char_of (48 + n)]
      else str_nat (n div 10) @ [char_of (48 + n mod 10)])"

declare str_nat.simps [simp del]

definition str_int :: "int \<Rightarrow> string" where
  "str_int i = (if i < 0 then CHR ''-'' # str_nat (nat (- i)) else str_nat (nat i))"

text \<open>Reading a digit string back, used to state that \<open>str_int\<close> is the decimal literal.\<close>

definition nat_of_digits :: "string \<Rightarrow> nat" where
  "nat_of_digits s = foldl (\<lambda>a c. 10 * a + (of_char c - 48)) 0 s"

definition int_of_literal :: "string \<Rightarrow> int" where
  "int_of_literal s =
     (case s of
        [] \<Rightarrow> 0
      | c # cs \<Rightarrow> if c = CHR ''-'' then - int (nat_of_digits cs) else int (nat_of_digits s))"

subsection \<open>CrewAI objects as records\<close>

record llm =
  model :: string
  api_key :: string
  temperature :: rat

record agent =
  role :: string
  goal :: string
  backstory :: string
  llm :: llm
  verbose :: bool

record task =
  description :: string
  expected_output :: string
  agent :: agent

record crew =
  agents :: "agent list"
  tasks :: "task list"
  verbose :: bool

text \<open>
  The generation capability: \<open>crew.kickoff()\<close>, with the outside world \<open>'w\<close> threaded
  through, exceptions \<open>'e\<close> and results \<open>'r\<close>.
\<close>

type_synonym ('w, 'e, 'r) kickoff = "crew \<Rightarrow> 'w \<Rightarrow> ('e + 'r) \<times> 'w"

text \<open>A JSON object returned by a handler: a Python dict of string fields, in order.\<close>

type_synonym response = "(string \<times> string) list"

subsection \<open>Request models\<close>

record SummarizeRequest =
  "text" :: string

record StudyMaterialRequest =
  "text" :: string
  num_mcqs :: int

subsection \<open>Basic routes\<close>

definition read_root :: response where
  "read_root =
     [(''message'',
       ''Study Material Generator API is running '' @ [CHR 0xF0, CHR 0x9F, CHR 0x9A, CHR 0x80])]"

definition health_check :: response where
  "health_check = [(''status'', ''ok'')]"

subsection \<open>Flow A: \<open>summarize_text\<close>\<close>

definition summarizer_agent :: "llm \<Rightarrow> agent" where
  "summarizer_agent gemini_llm =
     \<lparr>role = ''Subject Teacher'',
      goal = ''Create short, exam-focused summaries of study material.'',
      backstory =
        ''You are a very good college teacher. '' @
        ''You read the given content and write clear, simple, point-wise notes '' @
        ''that help students revise before exams.'',
      llm = gemini_llm,
      agent.verbose = True\<rparr>"

definition summarize_task :: "llm \<Rightarrow> string \<Rightarrow> task" where
  "summarize_task gemini_llm user_text =
     \<lparr>description =
        ''Read the following study material and create a short, clear, '' @
        ''exam-focused summary in simple language. Use bullet points where possible.\<newline>\<newline>'' @
        ''CONTENT:\<newline>'' @ user_text,
      expected_output =
        ''A concise summary of the content, with bullet points, '' @
        ''covering all important concepts for exam preparation.'',
      agent = summarizer_agent gemini_llm\<rparr>"

definition summarize_crew :: "llm \<Rightarrow> string \<Rightarrow> crew" where
  "summarize_crew gemini_llm user_text =
     \<lparr>agents = [summarizer_agent gemini_llm],
      tasks = [summarize_task gemini_llm user_text],
      verbose = True\<rparr>"

definition summarize_text ::
  "llm \<Rightarrow> ('r \<Rightarrow> string) \<Rightarrow> ('w, 'e, 'r) kickoff \<Rightarrow> SummarizeRequest \<Rightarrow> 'w \<Rightarrow> ('e + response) \<times> 'w"
where
  "summarize_text gemini_llm str_of kickoff request w =
     (let user_text = SummarizeRequest.text request in
      case kickoff (summarize_crew gemini_llm user_text) w of
        (Inl e, w1) \<Rightarrow> (Inl e, w1)
      | (Inr result, w1) \<Rightarrow> (Inr [(''summary'', str_of result)], w1))"

subsection \<open>Flow B: \<open>generate_study_material\<close>\<close>

definition topic_analyzer :: "llm \<Rightarrow> agent" where
  "topic_analyzer gemini_llm =
     \<lparr>role = ''Topic Analyzer'',
      goal = ''Identify the most important topics and subtopics from the given study material.'',
      backstory =
        ''You are an expert at reading long chapters and extracting only the most '' @
        ''important headings and subheadings that students should study for exams.'',
      llm = gemini_llm,
      agent.verbose = True\<rparr>"

definition notes_maker :: "llm \<Rightarrow> agent" where
  "notes_maker gemini_llm =
     \<lparr>role = ''Notes Maker'',
      goal = ''Write short, exam-focused notes in simple language.'',
      backstory =
        ''You are a friendly college teacher. You explain concepts in very simple terms '' @
        ''and create bullet-point notes that students can revise quickly before exams.'',
      llm = gemini_llm,
      agent.verbose = True\<rparr>"

definition mcq_maker :: "llm \<Rightarrow> agent" where
  "mcq_maker gemini_llm =
     \<lparr>role = ''MCQ Creator'',
      goal = ''Create clear MCQs based on the notes and topics, with 4 options and correct answer.'',
      backstory =
        ''You are an experienced question paper setter. You create fair and clear MCQs '' @
        ''that directly test understanding of the notes and topics.'',
      llm = gemini_llm,
      agent.verbose = True\<rparr>"

definition topic_task :: "llm \<Rightarrow> string \<Rightarrow> task" where
  "topic_task gemini_llm content =
     \<lparr>description =
        ''Read the following study material and extract the MOST IMPORTANT topics and subtopics '' @
        ''for exam preparation and give full length description or points.\<newline>\<newline>'' @
        ''CONTENT:\<newline>'' @ content @ ''\<newline>\<newline>'' @
        ''OUTPUT FORMAT (VERY IMPORTANT):\<newline>'' @
        ''- Do NOT use any Markdown formatting (no *, no #, no **, no ```).\<newline>'' @
        ''- Use only plain text.\<newline>'' @
        ''- Write in this style:\<newline>'' @
        ''  Main Topic 1:\<newline>'' @
        ''    - Subtopic 1\<newline>'' @
        ''    - Subtopic 2\<newline>'' @
        ''  Main Topic 2:\<newline>'' @
        ''    - Subtopic 1\<newline>'' @
        ''    - Subtopic 2\<newline>'',
      expected_output =
        ''A bullet list of main topics and their subtopics, focused only on what is actually important for exams.'',
      agent = topic_analyzer gemini_llm\<rparr>"

definition topics_crew :: "llm \<Rightarrow> string \<Rightarrow> crew" where
  "topics_crew gemini_llm content =
     \<lparr>agents = [topic_analyzer gemini_llm],
      tasks = [topic_task gemini_llm content],
      verbose = True\<rparr>"

definition notes_task :: "llm \<Rightarrow> string \<Rightarrow> string \<Rightarrow> task" where
  "notes_task gemini_llm topics_text content =
     \<lparr>description =
        ''You are creating exam-focused notes for a B.Tech CSE student.\<newline>'' @
        ''Use the topics and subtopics listed below, plus the original content, '' @
        ''to write SHORT, SCORING NOTES for university exams.\<newline>\<newline>'' @
        ''TOPICS AND SUBTOPICS:\<newline>'' @
        topics_text @ ''\<newline>\<newline>'' @
        ''ORIGINAL CONTENT:\<newline>'' @
        content @ ''\<newline>\<newline>'' @
        ''VERY IMPORTANT RULES:\<newline>'' @
        ''- DO NOT use Markdown (no *, no #, no **, no ```).\<newline>'' @
        ''- Use ONLY plain text.\<newline>'' @
        ''- Write in clean headings and bullet points.\<newline>'' @
        ''- Target answers that can directly be written in 6'' @ [CHR 0xE2, CHR 0x80, CHR 0x93] @
          ''8 mark questions.\<newline>'' @
        ''- For each main topic, include:\<newline>'' @
        ''  1) Definition (1'' @ [CHR 0xE2, CHR 0x80, CHR 0x93] @ ''2 lines)\<newline>'' @
        ''  2) Important points / properties (point-wise)\<newline>'' @
        ''  3) Important operations / algorithms (in short)\<newline>'' @
        ''  4) Advantages / disadvantages (if applicable)\<newline>'' @
        ''  5) Applications / examples (if useful)\<newline>'' @
        ''- Avoid long stories or over-explanation.\<newline>'' @
        ''- Keep language simple, as if explaining to an average student before exam.\<newline>\<newline>'' @
        ''OUTPUT FORMAT (example style, but adapt to content):\<newline>'' @
        ''Array:\<newline>'' @
        ''  - Definition: ...\<newline>'' @
        ''  - Important points:\<newline>'' @
        ''    - ...\<newline>'' @
        ''    - ...\<newline>'' @
        ''  - Operations and time complexity:\<newline>'' @
        ''    - Traversal: ...\<newline>'' @
        ''    - Insertion: ...\<newline>'' @
        ''  - Advantages:\<newline>'' @
        ''    - ...\<newline>'' @
        ''  - Disadvantages:\<newline>'' @
        ''    - ...\<newline>'' @
        ''  - Applications:\<newline>'' @
        ''    - ...\<newline>'',
      expected_output =
        ''Plain text, point-wise exam notes (no markdown) for each main topic, '' @
        ''good enough to write 6'' @ [CHR 0xE2, CHR 0x80, CHR 0x93] @ ''8 mark answers directly.'',
      agent = notes_maker gemini_llm\<rparr>"

definition notes_crew :: "llm \<Rightarrow> string \<Rightarrow> string \<Rightarrow> crew" where
  "notes_crew gemini_llm topics_text content =
     \<lparr>agents = [notes_maker gemini_llm],
      tasks = [notes_task gemini_llm topics_text content],
      verbose = True\<rparr>"

definition mcq_task :: "llm \<Rightarrow> string \<Rightarrow> int \<Rightarrow> task" where
  "mcq_task gemini_llm notes_text num_mcqs' =
     \<lparr>description =
        ''Based on the notes below, generate MCQs for exam preparation.\<newline>\<newline>'' @
        ''NOTES:\<newline>'' @ notes_text @ ''\<newline>\<newline>'' @
        ''Create around '' @ str_int num_mcqs' @ '' MCQs.\<newline>\<newline>'' @
        ''RULES:\<newline>'' @
        ''- Each question must have 4 options: (a), (b), (c), (d).\<newline>'' @
        ''- Clearly mention the correct answer after each question.\<newline>'' @
        ''- Questions should directly test understanding of the notes.\<newline>'' @
        ''- Avoid too tricky or confusing questions.\<newline>\<newline>'' @
        ''OUTPUT FORMAT (very important):\<newline>'' @
        ''Q1. <question text>\<newline>'' @
        ''(a) option 1\<newline>'' @
        ''(b) option 2\<newline>'' @
        ''(c) option 3\<newline>'' @
        ''(d) option 4\<newline>'' @
        ''Answer: <option letter>\<newline>\<newline>'' @
        ''Q2. ... and so on.'',
      expected_output =
        ''A list of about '' @ str_int num_mcqs' @
        '' MCQs in the specified format, each with options and correct answer.'',
      agent = mcq_maker gemini_llm\<rparr>"

definition mcq_crew :: "llm \<Rightarrow> string \<Rightarrow> int \<Rightarrow> crew" where
  "mcq_crew gemini_llm notes_text num_mcqs' =
     \<lparr>agents = [mcq_maker gemini_llm],
      tasks = [mcq_task gemini_llm notes_text num_mcqs'],
      verbose = True\<rparr>"

definition generate_study_material ::
  "llm \<Rightarrow> ('r \<Rightarrow> string) \<Rightarrow> ('w, 'e, 'r) kickoff \<Rightarrow> StudyMaterialRequest \<Rightarrow> 'w
     \<Rightarrow> ('e + response) \<times> 'w"
where
  "generate_study_material gemini_llm str_of kickoff request w =
     (let content = StudyMaterialRequest.text request;
          num_mcqs' = StudyMaterialRequest.num_mcqs request in
      case kickoff (topics_crew gemini_llm content) w of
        (Inl e, w1) \<Rightarrow> (Inl e, w1)
      | (Inr topics_result, w1) \<Rightarrow>
          (let topics_text = str_of topics_result in
           case kickoff (notes_crew gemini_llm topics_text content) w1 of
             (Inl e, w2) \<Rightarrow> (Inl e, w2)
           | (Inr notes_result, w2) \<Rightarrow>
               (let notes_text = str_of notes_result in
                case kickoff (mcq_crew gemini_llm notes_text num_mcqs') w2 of
                  (Inl e, w3) \<Rightarrow> (Inl e, w3)
                | (Inr mcq_result, w3) \<Rightarrow>
                    (let mcq_text = str_of mcq_result in
                     (Inr [(''topics'', topics_text), (''notes'', notes_text), (''mcqs'', mcq_text)],
                      w3)))))"

subsection \<open>Observing the generation calls\<close>

text \<open>
  A capability that records every crew it is asked to run, in order, and otherwise
  behaves as the capability it wraps: the test double the specification describes.
\<close>

definition record_calls ::
  "('w, 'e, 'r) kickoff \<Rightarrow> (crew list \<times> 'w, 'e, 'r) kickoff"
where
  "record_calls kickoff c s =
     (case kickoff c (snd s) of (res, w') \<Rightarrow> (res, (fst s @ [c], w')))"

text \<open>The instruction texts of the recorded calls.\<close>

definition instructions :: "crew list \<Rightarrow> string list" where
  "instructions calls = concat (map (\<lambda>c. map description (tasks c)) calls)"

subsection \<open>Request bodies and their validation\<close>

text \<open>
  A parsed JSON value as Python's \<open>json\<close> module yields it; \<open>'f\<close> is the carrier of
  non-integer numbers, which the embedding does not interpret. The items of an object
  have distinct keys, as a Python dict has.
\<close>

datatype 'f json =
    JNull
  | JBool bool
  | JInt int
  | JFloat 'f
  | JString string
  | JArray "'f json list"
  | JObject "(string \<times> 'f json) list"

datatype validation_error =
    JsonInvalid
  | ModelType
  | Missing string
  | Invalid string

text \<open>
  What the web framework and the validation library contribute and the source does not
  fix: the JSON parser, and the coercion of a value of another JSON type into a \<open>str\<close>
  or an \<open>int\<close> field (\<open>None\<close> when the value is refused).
\<close>

record 'f framework =
  json_loads :: "string \<Rightarrow> 'f json option"
  lax_str :: "'f json \<Rightarrow> string option"
  lax_int :: "'f json \<Rightarrow> int option"

definition str_field :: "'f framework \<Rightarrow> 'f json \<Rightarrow> string option" where
  "str_field fw v = (case v of JString s \<Rightarrow> Some s | _ \<Rightarrow> lax_str fw v)"

definition int_field :: "'f framework \<Rightarrow> 'f json \<Rightarrow> int option" where
  "int_field fw v = (case v of JInt n \<Rightarrow> Some n | _ \<Rightarrow> lax_int fw v)"

text \<open>\<open>class SummarizeRequest(BaseModel): text: str\<close>, the field required.\<close>

definition validate_SummarizeRequest ::
  "'f framework \<Rightarrow> 'f json \<Rightarrow> validation_error list + SummarizeRequest"
where
  "validate_SummarizeRequest fw j =
     (case j of
        JObject items \<Rightarrow>
          (case map_of items ''text'' of
             None \<Rightarrow> Inl [Missing ''text'']
           | Some v \<Rightarrow>
               (case str_field fw v of
                  None \<Rightarrow> Inl [Invalid ''text'']
                | Some t \<Rightarrow> Inr \<lparr>SummarizeRequest.text = t\<rparr>))
      | _ \<Rightarrow> Inl [ModelType])"

text \<open>
  \<open>class StudyMaterialRequest(BaseModel): text: str; num_mcqs: int = 5\<close>: \<open>text\<close> is
  required, \<open>num_mcqs\<close> takes its default when the key is absent, and the errors of all
  fields are reported together.
\<close>

definition validate_StudyMaterialRequest ::
  "'f framework \<Rightarrow> 'f json \<Rightarrow> validation_error list + StudyMaterialRequest"
where
  "validate_StudyMaterialRequest fw j =
     (case j of
        JObject items \<Rightarrow>
          (let text_field =
                 (case map_of items ''text'' of
                    None \<Rightarrow> Inl (Missing ''text'')
                  | Some v \<Rightarrow>
                      (case str_field fw v of
                         None \<Rightarrow> Inl (Invalid ''text'')
                       | Some t \<Rightarrow> Inr t));
               num_mcqs_field =
                 (case map_of items ''num_mcqs'' of
                    None \<Rightarrow> Inr 5
                  | Some v \<Rightarrow>
                      (case int_field fw v of
                         None \<Rightarrow> Inl (Invalid ''num_mcqs'')
                       | Some n \<Rightarrow> Inr n))
           in case (text_field, num_mcqs_field) of
                (Inr t, Inr n) \<Rightarrow> Inr \<lparr>StudyMaterialRequest.text = t, num_mcqs = n\<rparr>
              | (Inl e1, Inr n) \<Rightarrow> Inl [e1]
              | (Inr t, Inl e2) \<Rightarrow> Inl [e2]
              | (Inl e1, Inl e2) \<Rightarrow> Inl [e1, e2])
      | _ \<Rightarrow> Inl [ModelType])"

subsection \<open>The application and its start-up\<close>

datatype http_method = GET | POST

record http_request =
  http_method :: http_method
  path :: string
  body :: string

text \<open>
  What a request comes to: the handler's return value, a rejection by request-body
  validation (the handler is not entered), an exception that left the handler, or no
  route of this module.
\<close>

datatype 'e outcome =
    Returned response
  | Rejected "validation_error list"
  | Raised 'e
  | NoRoute

definition finish :: "('e + response) \<times> 'w \<Rightarrow> 'e outcome \<times> 'w" where
  "finish r = (case r of (Inl e, w') \<Rightarrow> (Raised e, w') | (Inr resp, w') \<Rightarrow> (Returned resp, w'))"

definition app ::
  "'f framework \<Rightarrow> ('r \<Rightarrow> string) \<Rightarrow> ('w, 'e, 'r) kickoff \<Rightarrow> llm \<Rightarrow> http_request \<Rightarrow> 'w
     \<Rightarrow> 'e outcome \<times> 'w"
where
  "app fw str_of kickoff gemini_llm req w =
     (if http_method req = GET \<and> path req = ''/'' then (Returned read_root, w)
      else if http_method req = GET \<and> path req = ''/health'' then (Returned health_check, w)
      else if http_method req = POST \<and> path req = ''/summarize'' then
        (case json_loads fw (body req) of
           None \<Rightarrow> (Rejected [JsonInvalid], w)
         | Some j \<Rightarrow>
             (case validate_SummarizeRequest fw j of
                Inl errs \<Rightarrow> (Rejected errs, w)
              | Inr request \<Rightarrow> finish (summarize_text gemini_llm str_of kickoff request w)))
      else if http_method req = POST \<and> path req = ''/generate_study_material'' then
        (case json_loads fw (body req) of
           None \<Rightarrow> (Rejected [JsonInvalid], w)
         | Some j \<Rightarrow>
             (case validate_StudyMaterialRequest fw j of
                Inl errs \<Rightarrow> (Rejected errs, w)
              | Inr request \<Rightarrow>
                  finish (generate_study_material gemini_llm str_of kickoff request w)))
      else (NoRoute, w))"

text \<open>
  The module body, lines 9 to 24: \<open>environ\<close> is the process environment as
  \<open>load_dotenv()\<close> leaves it. The check of the credential comes before the LLM handle and
  the application object are built, so a failed start-up yields no application.
\<close>

datatype startup_error = ValueError string

definition gemini_llm_of :: "string \<Rightarrow> llm" where
  "gemini_llm_of GEMINI_API_KEY =
     \<lparr>model = ''gemini/gemini-2.5-pro'', api_key = GEMINI_API_KEY, temperature = 3 / 10\<rparr>"

definition module_init ::
  "'f framework \<Rightarrow> ('r \<Rightarrow> string) \<Rightarrow> ('w, 'e, 'r) kickoff \<Rightarrow> (string \<rightharpoonup> string)
     \<Rightarrow> startup_error + (http_request \<Rightarrow> 'w \<Rightarrow> 'e outcome \<times> 'w)"
where
  "module_init fw str_of kickoff environ =
     (case environ ''GEMINI_API_KEY'' of
        None \<Rightarrow> Inl (ValueError ''GEMINI_API_KEY is not set. Please add it to your .env file.'')
      | Some GEMINI_API_KEY \<Rightarrow> Inr (app fw str_of kickoff (gemini_llm_of GEMINI_API_KEY)))"

subsection \<open>Test doubles\<close>

text \<open>
  Deterministic stand-ins for the generation capability and the framework, used to run
  the theorems on concrete requests: a capability that answers the three stage calls
  with three markers (its world counts the calls), one that raises at a chosen call, one
  that always gives the same answer, and a framework whose parser knows one body.
\<close>

definition marker_kickoff :: "(nat, string, string) kickoff" where
  "marker_kickoff c n =
     (Inr (if n = 0 then ''TOPICS-MARKER'' else if n = 1 then ''NOTES-MARKER'' else ''MCQS-MARKER''),
      Suc n)"

definition failing_kickoff :: "nat \<Rightarrow> (nat, string, string) kickoff" where
  "failing_kickoff k c n = (if n = k then Inl ''quota exceeded'' else Inr ''ok'', Suc n)"

definition const_kickoff :: "string \<Rightarrow> (unit, string, string) kickoff" where
  "const_kickoff out c w = (Inr out, w)"

definition stub_framework :: "unit framework" where
  "stub_framework =
     \<lparr>json_loads = (\<lambda>s. if s = ''{}'' then Some (JObject []) else None),
      lax_str = (\<lambda>v. None),
      lax_int = (\<lambda>v. None)\<rparr>"

section \<open>Properties\<close>

subsection \<open>Substituted texts occur in the instructions\<close>

lemma sublist_skip: "sublist xs ys \<Longrightarrow> sublist xs (zs @ ys)"
  by (metis append_assoc sublist_def)

lemma notes_has_topics: "sublist topics_text (description (notes_task g topics_text content))"
  unfolding notes_task_def task.select_convs
  by (rule sublist_append_rightI | rule sublist_skip)+

lemma notes_has_content: "sublist content (description (notes_task g topics_text content))"
  unfolding notes_task_def task.select_convs
  by (rule sublist_append_rightI | rule sublist_skip)+

lemma mcq_has_notes: "sublist notes_text (description (mcq_task g notes_text n))"
  unfolding mcq_task_def task.select_convs
  by (rule sublist_append_rightI | rule sublist_skip)+

lemma mcq_has_count:
  "sublist (''Create around '' @ str_int n @ '' MCQs.'') (description (mcq_task g notes_text n))"
  unfolding mcq_task_def task.select_convs
  by ((rule prefix_imp_sublist, (simp; fail)) | rule sublist_skip)+

lemma mcq_has_literal: "sublist (str_int n) (description (mcq_task g notes_text n))"
  unfolding mcq_task_def task.select_convs
  by (rule sublist_append_rightI | rule sublist_skip)+

subsection \<open>The decimal rendering reads back\<close>

lemma nat_of_digits_snoc: "nat_of_digits (s @ [c]) = 10 * nat_of_digits s + (of_char c - 48)"
  by (simp add: nat_of_digits_def)

lemma nat_of_digits_str_nat: "nat_of_digits (str_nat n) = n"
proof (induction n rule: str_nat.induct)
  case (1 n)
  show ?case
  proof (cases "n < 10")
    case True
    then show ?thesis by (subst str_nat.simps) (simp add: nat_of_digits_def)
  next
    case False
    with 1 show ?thesis
      by (subst str_nat.simps) (simp add: nat_of_digits_snoc)
  qed
qed

lemma str_nat_head: "str_nat n \<noteq> [] \<and> hd (str_nat n) \<noteq> CHR ''-''"
proof (induction n rule: str_nat.induct)
  case (1 n)
  show ?case
  proof (cases "n < 10")
    case True
    have "char_of (48 + n) \<noteq> CHR ''-''"
    proof
      assume "char_of (48 + n) = CHR ''-''"
      then have "(of_char (char_of (48 + n) :: char) :: nat) = of_char CHR ''-''" by simp
      then show False using True by simp
    qed
    then show ?thesis using True by (subst (1 2) str_nat.simps) simp
  next
    case False
    with 1 show ?thesis by (subst (1 2) str_nat.simps) simp
  qed
qed

lemma int_of_literal_str_int: "int_of_literal (str_int i) = i"
proof (cases "i < 0")
  case True
  then show ?thesis by (simp add: int_of_literal_def str_int_def nat_of_digits_str_nat)
next
  case False
  obtain c cs where s: "str_nat (nat i) = c # cs" using str_nat_head [of "nat i"] by (cases "str_nat (nat i)") auto
  have "c \<noteq> CHR ''-''" using str_nat_head [of "nat i"] s by simp
  moreover have "nat_of_digits (c # cs) = nat i" using nat_of_digits_str_nat [of "nat i"] s by simp
  ultimately show ?thesis using False s by (simp add: int_of_literal_def str_int_def)
qed

subsection \<open>The calls Flow B makes\<close>

lemma gsm_stage3:
  assumes "kickoff (topics_crew g (StudyMaterialRequest.text req)) w = (Inr r1, w1)"
    and "kickoff (notes_crew g (str_of r1) (StudyMaterialRequest.text req)) w1 = (Inr r2, w2)"
    and "kickoff (mcq_crew g (str_of r2) (num_mcqs req)) w2 = (res, w3)"
  shows "generate_study_material g str_of (record_calls kickoff) req (calls, w) =
           ((case res of
               Inl e \<Rightarrow> Inl e
             | Inr r3 \<Rightarrow> Inr [(''topics'', str_of r1), (''notes'', str_of r2), (''mcqs'', str_of r3)]),
            (calls @ [topics_crew g (StudyMaterialRequest.text req),
                      notes_crew g (str_of r1) (StudyMaterialRequest.text req),
                      mcq_crew g (str_of r2) (num_mcqs req)], w3))"
  using assms by (cases res) (simp_all add: generate_study_material_def record_calls_def Let_def)

lemma gsm_calls_after_stage2:
  assumes "kickoff (topics_crew g (StudyMaterialRequest.text req)) w = (Inr r1, w1)"
    and "kickoff (notes_crew g (str_of r1) (StudyMaterialRequest.text req)) w1 = (Inr r2, w2)"
  shows "fst (snd (generate_study_material g str_of (record_calls kickoff) req (calls, w))) =
           calls @ [topics_crew g (StudyMaterialRequest.text req),
                    notes_crew g (str_of r1) (StudyMaterialRequest.text req),
                    mcq_crew g (str_of r2) (num_mcqs req)]"
proof -
  obtain res w3 where "kickoff (mcq_crew g (str_of r2) (num_mcqs req)) w2 = (res, w3)"
    by (cases "kickoff (mcq_crew g (str_of r2) (num_mcqs req)) w2") blast
  from gsm_stage3 [OF assms this] show ?thesis by simp
qed

lemma instructions_three:
  "instructions [topics_crew g c, notes_crew g t c, mcq_crew g n k] =
     [description (topic_task g c), description (notes_task g t c), description (mcq_task g n k)]"
  by (simp add: instructions_def topics_crew_def notes_crew_def mcq_crew_def)

subsection \<open>Flow B: the instructions of the three stages\<close>

text \<open>
  Claim C1, as the code has it. When the first two stages return, the capability is asked
  to run exactly the topics crew, the notes crew and the MCQ crew, in this order. The
  notes instruction contains the stringified topics result and the original input text,
  each verbatim. The MCQ instruction contains the stringified notes result verbatim and is
  the fixed template filled with that result and the requested count alone: the original
  input text is not one of its arguments.
\<close>

theorem stage_instructions_chain:
  assumes "kickoff (topics_crew g (StudyMaterialRequest.text req)) w = (Inr r1, w1)"
    and "kickoff (notes_crew g (str_of r1) (StudyMaterialRequest.text req)) w1 = (Inr r2, w2)"
  shows "fst (snd (generate_study_material g str_of (record_calls kickoff) req ([], w))) =
           [topics_crew g (StudyMaterialRequest.text req),
            notes_crew g (str_of r1) (StudyMaterialRequest.text req),
            mcq_crew g (str_of r2) (num_mcqs req)]
       \<and> instructions (fst (snd (generate_study_material g str_of (record_calls kickoff) req ([], w)))) =
           [description (topic_task g (StudyMaterialRequest.text req)),
            description (notes_task g (str_of r1) (StudyMaterialRequest.text req)),
            description (mcq_task g (str_of r2) (num_mcqs req))]
       \<and> sublist (str_of r1) (description (notes_task g (str_of r1) (StudyMaterialRequest.text req)))
       \<and> sublist (StudyMaterialRequest.text req)
            (description (notes_task g (str_of r1) (StudyMaterialRequest.text req)))
       \<and> sublist (str_of r2) (description (mcq_task g (str_of r2) (num_mcqs req)))"
proof -
  have calls: "fst (snd (generate_study_material g str_of (record_calls kickoff) req ([], w))) =
           [topics_crew g (StudyMaterialRequest.text req),
            notes_crew g (str_of r1) (StudyMaterialRequest.text req),
            mcq_crew g (str_of r2) (num_mcqs req)]"
    using gsm_calls_after_stage2 [where str_of = str_of and calls = "[]", OF assms] by simp
  show ?thesis
    unfolding calls instructions_three
    using notes_has_topics notes_has_content mcq_has_notes by blast
qed

theorem stage_instructions_chain_witness:
  "marker_kickoff (topics_crew (gemini_llm_of ''k'') ''Stack'') 0 = (Inr ''TOPICS-MARKER'', 1)
   \<and> marker_kickoff (notes_crew (gemini_llm_of ''k'') ''TOPICS-MARKER'' ''Stack'') 1 = (Inr ''NOTES-MARKER'', 2)
   \<and> fst (snd (generate_study_material (gemini_llm_of ''k'') id (record_calls marker_kickoff)
                 \<lparr>StudyMaterialRequest.text = ''Stack'', num_mcqs = 5\<rparr> ([], 0))) =
        [topics_crew (gemini_llm_of ''k'') ''Stack'',
         notes_crew (gemini_llm_of ''k'') ''TOPICS-MARKER'' ''Stack'',
         mcq_crew (gemini_llm_of ''k'') ''NOTES-MARKER'' 5]
   \<and> sublist ''TOPICS-MARKER'' (description (notes_task (gemini_llm_of ''k'') ''TOPICS-MARKER'' ''Stack''))
   \<and> sublist ''Stack'' (description (notes_task (gemini_llm_of ''k'') ''TOPICS-MARKER'' ''Stack''))
   \<and> sublist ''NOTES-MARKER'' (description (mcq_task (gemini_llm_of ''k'') ''NOTES-MARKER'' 5))"
proof -
  have h1: "marker_kickoff (topics_crew (gemini_llm_of ''k'')
              (StudyMaterialRequest.text \<lparr>StudyMaterialRequest.text = ''Stack'', num_mcqs = 5\<rparr>)) 0
            = (Inr ''TOPICS-MARKER'', 1)"
    by (simp add: marker_kickoff_def)
  have h2: "marker_kickoff (notes_crew (gemini_llm_of ''k'') (id ''TOPICS-MARKER'')
              (StudyMaterialRequest.text \<lparr>StudyMaterialRequest.text = ''Stack'', num_mcqs = 5\<rparr>)) 1
            = (Inr ''NOTES-MARKER'', 2)"
    by (simp add: marker_kickoff_def)
  from stage_instructions_chain [where str_of = id, OF h1 h2] h1 h2 show ?thesis by simp
qed

text \<open>
  Claim C1 as worded says that the MCQ instruction never contains the original input
  text. It can: the notes result is substituted verbatim, and notes about a short input
  repeat it. Here the input is \<open>Stack\<close> and every stage answers \<open>Stack: a LIFO list\<close>.
\<close>

theorem stage3_instruction_can_contain_input:
  "fst (generate_study_material (gemini_llm_of ''k'') id (record_calls (const_kickoff ''Stack: a LIFO list''))
          \<lparr>StudyMaterialRequest.text = ''Stack'', num_mcqs = 5\<rparr> ([], ())) =
     Inr [(''topics'', ''Stack: a LIFO list''), (''notes'', ''Stack: a LIFO list''),
          (''mcqs'', ''Stack: a LIFO list'')]
   \<and> sublist ''Stack''
        (instructions (fst (snd (generate_study_material (gemini_llm_of ''k'') id
            (record_calls (const_kickoff ''Stack: a LIFO list''))
            \<lparr>StudyMaterialRequest.text = ''Stack'', num_mcqs = 5\<rparr> ([], ())))) ! 2)"
proof -
  have run: "generate_study_material (gemini_llm_of ''k'') id (record_calls (const_kickoff ''Stack: a LIFO list''))
          \<lparr>StudyMaterialRequest.text = ''Stack'', num_mcqs = 5\<rparr> ([], ()) =
        (Inr [(''topics'', ''Stack: a LIFO list''), (''notes'', ''Stack: a LIFO list''),
              (''mcqs'', ''Stack: a LIFO list'')],
         ([topics_crew (gemini_llm_of ''k'') ''Stack'',
           notes_crew (gemini_llm_of ''k'') ''Stack: a LIFO list'' ''Stack'',
           mcq_crew (gemini_llm_of ''k'') ''Stack: a LIFO list'' 5], ()))"
    by (simp add: generate_study_material_def record_calls_def const_kickoff_def Let_def)
  have "sublist ''Stack'' ''Stack: a LIFO list''"
    by (rule prefix_imp_sublist) simp
  then have "sublist ''Stack'' (description (mcq_task (gemini_llm_of ''k'') ''Stack: a LIFO list'' 5))"
    using mcq_has_notes sublist_order.order.trans by blast
  then show ?thesis
    unfolding run by (simp add: instructions_three)
qed

subsection \<open>Flow B: the response\<close>

text \<open>
  Claim C2. When the three stages return, the handler returns the dict with exactly the
  fields \<open>topics\<close>, \<open>notes\<close> and \<open>mcqs\<close>, in this order, each the stringified result of
  its stage with nothing done to it, and the route answers with that dict.
\<close>

theorem response_holds_raw_outputs:
  assumes "kickoff (topics_crew g (StudyMaterialRequest.text req)) w = (Inr r1, w1)"
    and "kickoff (notes_crew g (str_of r1) (StudyMaterialRequest.text req)) w1 = (Inr r2, w2)"
    and "kickoff (mcq_crew g (str_of r2) (num_mcqs req)) w2 = (Inr r3, w3)"
  shows "generate_study_material g str_of kickoff req w =
           (Inr [(''topics'', str_of r1), (''notes'', str_of r2), (''mcqs'', str_of r3)], w3)
       \<and> finish (generate_study_material g str_of kickoff req w) =
           (Returned [(''topics'', str_of r1), (''notes'', str_of r2), (''mcqs'', str_of r3)], w3)"
  using assms by (simp add: generate_study_material_def finish_def Let_def)

theorem response_holds_raw_outputs_witness:
  "marker_kickoff (topics_crew (gemini_llm_of ''k'') ''Stack'') 0 = (Inr ''TOPICS-MARKER'', 1)
   \<and> marker_kickoff (notes_crew (gemini_llm_of ''k'') ''TOPICS-MARKER'' ''Stack'') 1 = (Inr ''NOTES-MARKER'', 2)
   \<and> marker_kickoff (mcq_crew (gemini_llm_of ''k'') ''NOTES-MARKER'' 5) 2 = (Inr ''MCQS-MARKER'', 3)
   \<and> generate_study_material (gemini_llm_of ''k'') id marker_kickoff
        \<lparr>StudyMaterialRequest.text = ''Stack'', num_mcqs = 5\<rparr> 0 =
        (Inr [(''topics'', ''TOPICS-MARKER''), (''notes'', ''NOTES-MARKER''), (''mcqs'', ''MCQS-MARKER'')], 3)"
proof -
  have h1: "marker_kickoff (topics_crew (gemini_llm_of ''k'')
              (StudyMaterialRequest.text \<lparr>StudyMaterialRequest.text = ''Stack'', num_mcqs = 5\<rparr>)) 0
            = (Inr ''TOPICS-MARKER'', 1)"
    by (simp add: marker_kickoff_def)
  have h2: "marker_kickoff (notes_crew (gemini_llm_of ''k'') (id ''TOPICS-MARKER'')
              (StudyMaterialRequest.text \<lparr>StudyMaterialRequest.text = ''Stack'', num_mcqs = 5\<rparr>)) 1
            = (Inr ''NOTES-MARKER'', 2)"
    by (simp add: marker_kickoff_def)
  have h3: "marker_kickoff (mcq_crew (gemini_llm_of ''k'') (id ''NOTES-MARKER'')
              (num_mcqs \<lparr>StudyMaterialRequest.text = ''Stack'', num_mcqs = 5\<rparr>)) 2
            = (Inr ''MCQS-MARKER'', 3)"
    by (simp add: marker_kickoff_def)
  from response_holds_raw_outputs [where str_of = id, OF h1 h2 h3] h1 h2 h3 show ?thesis by simp
qed

subsection \<open>Flow B: the requested count\<close>

text \<open>
  Claim C3. A JSON integer in \<open>num_mcqs\<close> is taken as it is, whatever its sign or size, and
  an absent \<open>num_mcqs\<close> becomes 5. For every integer count \<open>n\<close>, once the first two stages
  have returned, the MCQ instruction (the last one the capability receives) contains
  \<open>Create around n MCQs.\<close> with \<open>n\<close> as Python prints it, and that rendering is the decimal
  literal of \<open>n\<close>: reading it back gives \<open>n\<close>.
\<close>

theorem mcq_instruction_embeds_count:
  assumes "kickoff (topics_crew g t) w = (Inr r1, w1)"
    and "kickoff (notes_crew g (str_of r1) t) w1 = (Inr r2, w2)"
  shows "(\<forall>items. map_of items ''text'' = Some (JString t) \<and>
                 map_of items ''num_mcqs'' = Some (JInt n) \<longrightarrow>
            validate_StudyMaterialRequest fw (JObject items) =
              Inr \<lparr>StudyMaterialRequest.text = t, num_mcqs = n\<rparr>)
       \<and> (\<forall>items. map_of items ''text'' = Some (JString t) \<and> map_of items ''num_mcqs'' = None \<longrightarrow>
            validate_StudyMaterialRequest fw (JObject items) =
              Inr \<lparr>StudyMaterialRequest.text = t, num_mcqs = 5\<rparr>)
       \<and> sublist (''Create around '' @ str_int n @ '' MCQs.'')
            (last (instructions (fst (snd (generate_study_material g str_of (record_calls kickoff)
               \<lparr>StudyMaterialRequest.text = t, num_mcqs = n\<rparr> ([], w))))))
       \<and> sublist (str_int n)
            (last (instructions (fst (snd (generate_study_material g str_of (record_calls kickoff)
               \<lparr>StudyMaterialRequest.text = t, num_mcqs = n\<rparr> ([], w))))))
       \<and> int_of_literal (str_int n) = n"
proof -
  have calls: "fst (snd (generate_study_material g str_of (record_calls kickoff)
                 \<lparr>StudyMaterialRequest.text = t, num_mcqs = n\<rparr> ([], w))) =
           [topics_crew g t, notes_crew g (str_of r1) t, mcq_crew g (str_of r2) n]"
    using gsm_calls_after_stage2 [where str_of = str_of and calls = "[]"
        and req = "\<lparr>StudyMaterialRequest.text = t, num_mcqs = n\<rparr>" and kickoff = kickoff] assms
    by simp
  have v1: "validate_StudyMaterialRequest fw (JObject items) =
              Inr \<lparr>StudyMaterialRequest.text = t, num_mcqs = n\<rparr>"
    if "map_of items ''text'' = Some (JString t)" "map_of items ''num_mcqs'' = Some (JInt n)"
    for items
    using that by (simp add: validate_StudyMaterialRequest_def str_field_def int_field_def)
  have v2: "validate_StudyMaterialRequest fw (JObject items) =
              Inr \<lparr>StudyMaterialRequest.text = t, num_mcqs = 5\<rparr>"
    if "map_of items ''text'' = Some (JString t)" "map_of items ''num_mcqs'' = None"
    for items
    using that by (simp add: validate_StudyMaterialRequest_def str_field_def int_field_def)
  show ?thesis
    unfolding calls instructions_three
    using v1 v2 mcq_has_count mcq_has_literal int_of_literal_str_int by simp
qed

theorem mcq_instruction_embeds_count_witness:
  "marker_kickoff (topics_crew (gemini_llm_of ''k'') ''Stack'') 0 = (Inr ''TOPICS-MARKER'', 1)
   \<and> marker_kickoff (notes_crew (gemini_llm_of ''k'') ''TOPICS-MARKER'' ''Stack'') 1 = (Inr ''NOTES-MARKER'', 2)
   \<and> validate_StudyMaterialRequest stub_framework
        (JObject [(''text'', JString ''Stack''), (''num_mcqs'', JInt (- 3))]) =
        Inr \<lparr>StudyMaterialRequest.text = ''Stack'', num_mcqs = - 3\<rparr>
   \<and> validate_StudyMaterialRequest stub_framework (JObject [(''text'', JString ''Stack'')]) =
        Inr \<lparr>StudyMaterialRequest.text = ''Stack'', num_mcqs = 5\<rparr>
   \<and> sublist ''Create around -3 MCQs.''
        (last (instructions (fst (snd (generate_study_material (gemini_llm_of ''k'') id
           (record_calls marker_kickoff)
           \<lparr>StudyMaterialRequest.text = ''Stack'', num_mcqs = - 3\<rparr> ([], 0))))))"
proof -
  have h1: "marker_kickoff (topics_crew (gemini_llm_of ''k'') ''Stack'') 0 = (Inr ''TOPICS-MARKER'', 1)"
    by (simp add: marker_kickoff_def)
  have h2: "marker_kickoff (notes_crew (gemini_llm_of ''k'') (id ''TOPICS-MARKER'') ''Stack'') 1
            = (Inr ''NOTES-MARKER'', 2)"
    by (simp add: marker_kickoff_def)
  have s: "str_int (- 3) = ''-3''"
    by code_simp
  note t = mcq_instruction_embeds_count [where str_of = id and fw = stub_framework and n = "- 3"
      and kickoff = marker_kickoff, OF h1 h2]
  have a: "validate_StudyMaterialRequest stub_framework
        (JObject [(''text'', JString ''Stack''), (''num_mcqs'', JInt (- 3))]) =
        Inr \<lparr>StudyMaterialRequest.text = ''Stack'', num_mcqs = - 3\<rparr>"
    using t [THEN conjunct1, THEN spec, of "[(''text'', JString ''Stack''), (''num_mcqs'', JInt (- 3))]"]
    by simp
  have b: "validate_StudyMaterialRequest stub_framework (JObject [(''text'', JString ''Stack'')]) =
        Inr \<lparr>StudyMaterialRequest.text = ''Stack'', num_mcqs = 5\<rparr>"
    using t [THEN conjunct2, THEN conjunct1, THEN spec, of "[(''text'', JString ''Stack'')]"]
    by simp
  from t h1 h2 s a b show ?thesis by simp
qed

subsection \<open>Flow B: a failing stage\<close>

text \<open>
  Claim C4. Whichever stage raises, the handler ends with that same exception and no
  response value, the capability has been asked to run the stages up to the failing one
  and none after it, and the route passes the exception on as it is.
\<close>

theorem stage_failure_propagates:
  "(kickoff (topics_crew g (StudyMaterialRequest.text req)) w = (Inl e, w1) \<longrightarrow>
      generate_study_material g str_of (record_calls kickoff) req ([], w) =
        (Inl e, ([topics_crew g (StudyMaterialRequest.text req)], w1)))
   \<and> (kickoff (topics_crew g (StudyMaterialRequest.text req)) w = (Inr r1, w1) \<and>
      kickoff (notes_crew g (str_of r1) (StudyMaterialRequest.text req)) w1 = (Inl e, w2) \<longrightarrow>
      generate_study_material g str_of (record_calls kickoff) req ([], w) =
        (Inl e, ([topics_crew g (StudyMaterialRequest.text req),
                  notes_crew g (str_of r1) (StudyMaterialRequest.text req)], w2)))
   \<and> (kickoff (topics_crew g (StudyMaterialRequest.text req)) w = (Inr r1, w1) \<and>
      kickoff (notes_crew g (str_of r1) (StudyMaterialRequest.text req)) w1 = (Inr r2, w2) \<and>
      kickoff (mcq_crew g (str_of r2) (num_mcqs req)) w2 = (Inl e, w3) \<longrightarrow>
      generate_study_material g str_of (record_calls kickoff) req ([], w) =
        (Inl e, ([topics_crew g (StudyMaterialRequest.text req),
                  notes_crew g (str_of r1) (StudyMaterialRequest.text req),
                  mcq_crew g (str_of r2) (num_mcqs req)], w3)))
   \<and> finish (Inl e, w') = (Raised e, w')"
  by (simp add: generate_study_material_def record_calls_def finish_def Let_def)

theorem stage_failure_propagates_witness:
  "generate_study_material (gemini_llm_of ''k'') id (record_calls (failing_kickoff 0))
      \<lparr>StudyMaterialRequest.text = ''Stack'', num_mcqs = 5\<rparr> ([], 0) =
     (Inl ''quota exceeded'', ([topics_crew (gemini_llm_of ''k'') ''Stack''], 1))
   \<and> generate_study_material (gemini_llm_of ''k'') id (record_calls (failing_kickoff 1))
      \<lparr>StudyMaterialRequest.text = ''Stack'', num_mcqs = 5\<rparr> ([], 0) =
     (Inl ''quota exceeded'',
      ([topics_crew (gemini_llm_of ''k'') ''Stack'', notes_crew (gemini_llm_of ''k'') ''ok'' ''Stack''], 2))
   \<and> generate_study_material (gemini_llm_of ''k'') id (record_calls (failing_kickoff 2))
      \<lparr>StudyMaterialRequest.text = ''Stack'', num_mcqs = 5\<rparr> ([], 0) =
     (Inl ''quota exceeded'',
      ([topics_crew (gemini_llm_of ''k'') ''Stack'', notes_crew (gemini_llm_of ''k'') ''ok'' ''Stack'',
        mcq_crew (gemini_llm_of ''k'') ''ok'' 5], 3))"
proof -
  note t = stage_failure_propagates [where str_of = id and g = "gemini_llm_of ''k''"
      and req = "\<lparr>StudyMaterialRequest.text = ''Stack'', num_mcqs = 5\<rparr>" and w = 0
      and e = "''quota exceeded''"]
  have c1: "failing_kickoff 0 (topics_crew (gemini_llm_of ''k'')
        (StudyMaterialRequest.text \<lparr>StudyMaterialRequest.text = ''Stack'', num_mcqs = 5\<rparr>)) 0 =
        (Inl ''quota exceeded'', 1)"
    by (simp add: failing_kickoff_def)
  have c2: "failing_kickoff 1 (topics_crew (gemini_llm_of ''k'')
        (StudyMaterialRequest.text \<lparr>StudyMaterialRequest.text = ''Stack'', num_mcqs = 5\<rparr>)) 0 =
        (Inr ''ok'', 1)
      \<and> failing_kickoff 1 (notes_crew (gemini_llm_of ''k'') (id ''ok'')
        (StudyMaterialRequest.text \<lparr>StudyMaterialRequest.text = ''Stack'', num_mcqs = 5\<rparr>)) 1 =
        (Inl ''quota exceeded'', 2)"
    by (simp add: failing_kickoff_def)
  have c3: "failing_kickoff 2 (topics_crew (gemini_llm_of ''k'')
        (StudyMaterialRequest.text \<lparr>StudyMaterialRequest.text = ''Stack'', num_mcqs = 5\<rparr>)) 0 =
        (Inr ''ok'', 1)
      \<and> failing_kickoff 2 (notes_crew (gemini_llm_of ''k'') (id ''ok'')
        (StudyMaterialRequest.text \<lparr>StudyMaterialRequest.text = ''Stack'', num_mcqs = 5\<rparr>)) 1 =
        (Inr ''ok'', 2)
      \<and> failing_kickoff 2 (mcq_crew (gemini_llm_of ''k'') (id ''ok'')
        (num_mcqs \<lparr>StudyMaterialRequest.text = ''Stack'', num_mcqs = 5\<rparr>)) 2 =
        (Inl ''quota exceeded'', 3)"
    by (simp add: failing_kickoff_def)
  have r1: "generate_study_material (gemini_llm_of ''k'') id (record_calls (failing_kickoff 0))
      \<lparr>StudyMaterialRequest.text = ''Stack'', num_mcqs = 5\<rparr> ([], 0) =
     (Inl ''quota exceeded'', ([topics_crew (gemini_llm_of ''k'') ''Stack''], 1))"
    using t [where kickoff = "failing_kickoff 0" and ?w1.0 = 1, THEN conjunct1] c1 by simp
  have r2: "generate_study_material (gemini_llm_of ''k'') id (record_calls (failing_kickoff 1))
      \<lparr>StudyMaterialRequest.text = ''Stack'', num_mcqs = 5\<rparr> ([], 0) =
     (Inl ''quota exceeded'',
      ([topics_crew (gemini_llm_of ''k'') ''Stack'', notes_crew (gemini_llm_of ''k'') ''ok'' ''Stack''], 2))"
    using t [where kickoff = "failing_kickoff 1" and ?w1.0 = 1 and ?w2.0 = 2 and ?r1.0 = "''ok''",
        THEN conjunct2, THEN conjunct1] c2 by simp
  have r3: "generate_study_material (gemini_llm_of ''k'') id (record_calls (failing_kickoff 2))
      \<lparr>StudyMaterialRequest.text = ''Stack'', num_mcqs = 5\<rparr> ([], 0) =
     (Inl ''quota exceeded'',
      ([topics_crew (gemini_llm_of ''k'') ''Stack'', notes_crew (gemini_llm_of ''k'') ''ok'' ''Stack'',
        mcq_crew (gemini_llm_of ''k'') ''ok'' 5], 3))"
    using t [where kickoff = "failing_kickoff 2" and ?w1.0 = 1 and ?w2.0 = 2 and ?w3.0 = 3
        and ?r1.0 = "''ok''" and ?r2.0 = "''ok''", THEN conjunct2, THEN conjunct2, THEN conjunct1] c3
    by simp
  from r1 r2 r3 show ?thesis by simp
qed

subsection \<open>Request bodies that do not validate\<close>

text \<open>
  Claim C5. A POST to \<open>/summarize\<close> or \<open>/generate_study_material\<close> whose body does not
  parse as JSON, or parses to an object without the key \<open>text\<close>, is rejected by
  validation: the handler is not entered, and the recording capability has no call.
\<close>

theorem invalid_body_rejected_before_generation:
  assumes "http_method req = POST"
    and "path req = ''/summarize'' \<or> path req = ''/generate_study_material''"
    and "json_loads fw (body req) = None
         \<or> (\<exists>items. json_loads fw (body req) = Some (JObject items) \<and> map_of items ''text'' = None)"
  shows "\<exists>errs. app fw str_of (record_calls kickoff) g req ([], w) = (Rejected errs, ([], w))"
proof -
  from assms(3) show ?thesis
  proof
    assume "json_loads fw (body req) = None"
    with assms(1,2) show ?thesis by (auto simp add: app_def)
  next
    assume "\<exists>items. json_loads fw (body req) = Some (JObject items) \<and> map_of items ''text'' = None"
    then obtain items where j: "json_loads fw (body req) = Some (JObject items)"
      and m: "map_of items ''text'' = None" by blast
    have s: "validate_SummarizeRequest fw (JObject items) = Inl [Missing ''text'']"
      using m by (simp add: validate_SummarizeRequest_def)
    have g: "\<exists>errs. validate_StudyMaterialRequest fw (JObject items) = Inl errs"
      using m by (simp add: validate_StudyMaterialRequest_def Let_def split: option.split sum.split)
    from assms(2) show ?thesis
    proof
      assume "path req = ''/summarize''"
      with assms(1) j s show ?thesis by (simp add: app_def)
    next
      assume "path req = ''/generate_study_material''"
      with assms(1) j g show ?thesis by (auto simp add: app_def)
    qed
  qed
qed

theorem invalid_body_rejected_before_generation_witness:
  "app stub_framework id (record_calls marker_kickoff) (gemini_llm_of ''k'')
      \<lparr>http_method = POST, path = ''/summarize'', body = ''{''\<rparr> ([], 0) =
     (Rejected [JsonInvalid], ([], 0))
   \<and> app stub_framework id (record_calls marker_kickoff) (gemini_llm_of ''k'')
      \<lparr>http_method = POST, path = ''/generate_study_material'', body = ''{}''\<rparr> ([], 0) =
     (Rejected [Missing ''text''], ([], 0))"
proof -
  have a: "\<exists>errs. app stub_framework id (record_calls marker_kickoff) (gemini_llm_of ''k'')
      \<lparr>http_method = POST, path = ''/summarize'', body = ''{''\<rparr> ([], 0) = (Rejected errs, ([], 0))"
    by (rule invalid_body_rejected_before_generation) (simp_all add: stub_framework_def)
  have b: "\<exists>errs. app stub_framework id (record_calls marker_kickoff) (gemini_llm_of ''k'')
      \<lparr>http_method = POST, path = ''/generate_study_material'', body = ''{}''\<rparr> ([], 0) =
      (Rejected errs, ([], 0))"
    by (rule invalid_body_rejected_before_generation) (simp_all add: stub_framework_def)
  have a': "fst (app stub_framework id (record_calls marker_kickoff) (gemini_llm_of ''k'')
      \<lparr>http_method = POST, path = ''/summarize'', body = ''{''\<rparr> ([], 0)) = Rejected [JsonInvalid]"
    by (simp add: app_def stub_framework_def)
  have b': "fst (app stub_framework id (record_calls marker_kickoff) (gemini_llm_of ''k'')
      \<lparr>http_method = POST, path = ''/generate_study_material'', body = ''{}''\<rparr> ([], 0)) =
      Rejected [Missing ''text'']"
    by (simp add: app_def stub_framework_def validate_StudyMaterialRequest_def)
  from a b a' b' show ?thesis by auto
qed

subsection \<open>Start-up without the credential\<close>

text \<open>
  Claim C6. When \<open>GEMINI_API_KEY\<close> is not in the environment, the module body raises
  \<open>ValueError\<close> before the application exists: start-up yields the error and no
  application that could serve a request.
\<close>

theorem missing_credential_fails_startup:
  assumes "environ ''GEMINI_API_KEY'' = None"
  shows "module_init fw str_of kickoff environ =
           Inl (ValueError ''GEMINI_API_KEY is not set. Please add it to your .env file.'')
       \<and> (\<forall>application. module_init fw str_of kickoff environ \<noteq> Inr application)"
  using assms by (simp add: module_init_def)

theorem missing_credential_fails_startup_witness:
  "Map.empty ''GEMINI_API_KEY'' = (None :: string option)
   \<and> module_init stub_framework id marker_kickoff Map.empty =
       Inl (ValueError ''GEMINI_API_KEY is not set. Please add it to your .env file.'')"
  using missing_credential_fails_startup [where environ = Map.empty and fw = stub_framework
      and str_of = id and kickoff = marker_kickoff]
  by simp

subsection \<open>Flow A: the summary\<close>

text \<open>
  Claim C7, as the code has it. For every input text, when the one generation call
  returns, the response has the single field \<open>summary\<close>, equal to the stringified
  generation result; exactly the summarize crew has been run. The handler checks nothing
  about the result, so the summary is non-empty exactly when that result is.
\<close>

theorem summary_is_generation_result:
  assumes "kickoff (summarize_crew g (SummarizeRequest.text req)) w = (Inr r, w1)"
  shows "summarize_text g str_of (record_calls kickoff) req ([], w) =
           (Inr [(''summary'', str_of r)], ([summarize_crew g (SummarizeRequest.text req)], w1))
       \<and> finish (summarize_text g str_of kickoff req w) = (Returned [(''summary'', str_of r)], w1)"
  using assms by (simp add: summarize_text_def record_calls_def finish_def Let_def)

theorem summary_is_generation_result_witness:
  "marker_kickoff (summarize_crew (gemini_llm_of ''k'') ''Stack'') 0 = (Inr ''TOPICS-MARKER'', 1)
   \<and> summarize_text (gemini_llm_of ''k'') id (record_calls marker_kickoff)
        \<lparr>SummarizeRequest.text = ''Stack''\<rparr> ([], 0) =
       (Inr [(''summary'', ''TOPICS-MARKER'')], ([summarize_crew (gemini_llm_of ''k'') ''Stack''], 1))"
proof -
  have h: "marker_kickoff (summarize_crew (gemini_llm_of ''k'')
             (SummarizeRequest.text \<lparr>SummarizeRequest.text = ''Stack''\<rparr>)) 0 = (Inr ''TOPICS-MARKER'', 1)"
    by (simp add: marker_kickoff_def)
  from summary_is_generation_result [where str_of = id and kickoff = marker_kickoff, OF h] h
  show ?thesis by simp
qed

text \<open>
  Claim C7 as worded promises a non-empty summary for every non-empty input. A
  capability that returns the empty text gives a successful response with an empty
  summary.
\<close>

theorem summary_can_be_empty:
  "SummarizeRequest.text \<lparr>SummarizeRequest.text = ''Stack''\<rparr> \<noteq> []
   \<and> summarize_text (gemini_llm_of ''k'') id (const_kickoff [])
        \<lparr>SummarizeRequest.text = ''Stack''\<rparr> () = (Inr [(''summary'', [])], ())"
  by (simp add: summarize_text_def const_kickoff_def)

subsection \<open>The root route\<close>

text \<open>
  Claim C9. \<open>GET /\<close> returns the one constant dict, whatever the request body, the
  framework, the capability, the LLM handle and the state of the world, and leaves the
  world as it was.
\<close>

theorem root_banner_is_constant:
  "app fw str_of kickoff g \<lparr>http_method = GET, path = ''/'', body = b\<rparr> w =
     (Returned
        [(''message'',
          ''Study Material Generator API is running '' @ [CHR 0xF0, CHR 0x9F, CHR 0x9A, CHR 0x80])],
      w)"
  by (simp add: app_def read_root_def)

end
